theory Spec2Isabelle
  imports Complex_Main
begin

section \<open>Dense matrices and the linear-algebra operations the solver calls\<close>

text \<open>
  The solver in \<^verbatim>\<open>src/decomposition/simplex_regression_FW.cc\<close> works on Armadillo
  dense matrices of doubles. A matrix is modelled column by column (Armadillo stores
  it column-major and the solver reads and writes whole columns). Doubles are modelled
  as exact reals: rounding is not part of the model. The two places where the source
  leaves double arithmetic are kept as written: the \<^verbatim>\<open>int\<close> variables
  \<^verbatim>\<open>i1_val, i2_val\<close> (a double stored in them is truncated towards zero) and the
  integer quotient \<^verbatim>\<open>2 / (it + 2)\<close>.
\<close>

text \<open>
  A matrix is the list of its columns, each a list of entries; \<open>is_mat r c M\<close> says that
  \<open>M\<close> has \<open>c\<close> columns of \<open>r\<close> entries. The row count of a matrix is read off its first
  column, so a matrix without columns counts as having no rows.
\<close>

type_synonym vec = "real list"
type_synonym mat = "vec list"

text \<open>
  Armadillo reports a failed size check or a reduction over an empty object by throwing
  \<^verbatim>\<open>std::logic_error\<close>; the two messages the solver can meet are kept apart.
\<close>

datatype arma_error = Incompatible_dimensions | No_elements

text \<open>A thrown exception ends the computation: later statements run on \<open>Inr\<close> only.\<close>

definition bind_err :: "arma_error + 'a \<Rightarrow> ('a \<Rightarrow> arma_error + 'b) \<Rightarrow> arma_error + 'b" where
  "bind_err r f = (case r of Inl e \<Rightarrow> Inl e | Inr v \<Rightarrow> f v)"

definition n_cols :: "mat \<Rightarrow> nat" where
  "n_cols M = length M"

definition n_rows :: "mat \<Rightarrow> nat" where
  "n_rows M = (case M of [] \<Rightarrow> 0 | c # _ \<Rightarrow> length c)"

definition is_mat :: "nat \<Rightarrow> nat \<Rightarrow> mat \<Rightarrow> bool" where
  "is_mat r c M \<longleftrightarrow> length M = c \<and> (\<forall>v \<in> set M. length v = r)"

definition trans_mat :: "mat \<Rightarrow> mat" where
  "trans_mat M = map (\<lambda>i. map (\<lambda>c. c ! i) M) [0..<n_rows M]"

definition dot :: "vec \<Rightarrow> vec \<Rightarrow> real" where
  "dot u v = sum_list (map2 (*) u v)"

definition mat_vec :: "mat \<Rightarrow> vec \<Rightarrow> vec" where
  "mat_vec M v = map (\<lambda>r. dot r v) (trans_mat M)"

text \<open>\<^verbatim>\<open>M * N\<close>: the product checks that the sizes conform and throws otherwise.\<close>

definition mat_mult :: "mat \<Rightarrow> mat \<Rightarrow> arma_error + mat" where
  "mat_mult M N =
     (if n_cols M = n_rows N then Inr (map (mat_vec M) N)
      else Inl Incompatible_dimensions)"

text \<open>\<^verbatim>\<open>M - N\<close>: element-wise, on matrices of the same size.\<close>

definition mat_minus :: "mat \<Rightarrow> mat \<Rightarrow> arma_error + mat" where
  "mat_minus M N =
     (if n_rows M = n_rows N \<and> n_cols M = n_cols N then Inr (map2 (map2 (-)) M N)
      else Inl Incompatible_dimensions)"

text \<open>
  \<^verbatim>\<open>index_max(v)\<close>: the position of the first largest element; an empty vector has
  none.
\<close>

fun index_max_scan :: "vec \<Rightarrow> nat \<Rightarrow> nat \<Rightarrow> real \<Rightarrow> nat" where
  "index_max_scan [] i best best_val = best"
| "index_max_scan (y # ys) i best best_val =
     (if best_val < y then index_max_scan ys (Suc i) i y
      else index_max_scan ys (Suc i) best best_val)"

definition index_max :: "vec \<Rightarrow> arma_error + nat" where
  "index_max v = (case v of [] \<Rightarrow> Inl No_elements | y # ys \<Rightarrow> Inr (index_max_scan ys 1 0 y))"

text \<open>\<^verbatim>\<open>clamp(X, lo, hi)\<close>, element by element.\<close>

definition clamp_val :: "real \<Rightarrow> real \<Rightarrow> real \<Rightarrow> real" where
  "clamp_val lo hi v = (if v < lo then lo else if hi < v then hi else v)"

definition clamp :: "mat \<Rightarrow> real \<Rightarrow> real \<Rightarrow> mat" where
  "clamp M lo hi = map (map (clamp_val lo hi)) M"

text \<open>
  \<^verbatim>\<open>normalise(X, 1)\<close>: every column is divided by its 1-norm; a column whose norm is
  zero is divided by 1 instead, so it comes back unchanged.
\<close>

definition norm1 :: "vec \<Rightarrow> real" where
  "norm1 v = sum_list (map abs v)"

definition normalise_col :: "vec \<Rightarrow> vec" where
  "normalise_col v = (let nv = norm1 v in map (\<lambda>e. e / (if nv \<noteq> 0 then nv else 1)) v)"

definition normalise :: "mat \<Rightarrow> mat" where
  "normalise M = map normalise_col M"

section \<open>The initial vertex\<close>

text \<open>
  Lines 23-29 (and 323-329): \<^verbatim>\<open>X = zeros(size(tmp))\<close>, then for every column
  \<^verbatim>\<open>j\<close> the entry at \<^verbatim>\<open>index_max(tmp.col(j))\<close> is set to 1.
\<close>

fun init_X :: "mat \<Rightarrow> arma_error + mat" where
  "init_X [] = Inr []"
| "init_X (c # cs) =
     bind_err (index_max c) (\<lambda>i.
     bind_err (init_X cs) (\<lambda>X.
       Inr ((replicate (length c) 0)[i := 1] # X)))"

section \<open>Choice of the two vertices\<close>

text \<open>
  Lines 45-60 (and 355-370). \<^verbatim>\<open>i1_val\<close> and \<^verbatim>\<open>i2_val\<close> are declared
  \<^verbatim>\<open>int\<close> and start at 1000: the comparison \<^verbatim>\<open>g(i) < i1_val\<close> is made
  on doubles, the assignment \<^verbatim>\<open>i1_val = g(i)\<close> keeps the integer part only.
  A gradient entry below the range of \<^verbatim>\<open>int\<close> (undefined behaviour in C++) is outside
  the model: the integer part is taken without a bound.
\<close>

definition int_of_double :: "real \<Rightarrow> int" where
  "int_of_double r = (if 0 \<le> r then \<lfloor>r\<rfloor> else \<lceil>r\<rceil>)"

definition select_step :: "vec \<Rightarrow> vec \<Rightarrow> nat \<times> int \<times> nat \<times> int \<Rightarrow> nat \<Rightarrow> nat \<times> int \<times> nat \<times> int" where
  "select_step g x s i =
     (case s of (i1, i1_val, i2, i2_val) \<Rightarrow>
        (let (i1', i1_val') =
               (if g ! i < of_int i1_val then (i, int_of_double (g ! i)) else (i1, i1_val));
             (i2', i2_val') =
               (if 0 < x ! i \<and> g ! i < of_int i2_val then (i, int_of_double (g ! i))
                else (i2, i2_val))
         in (i1', i1_val', i2', i2_val')))"

definition select_indices :: "vec \<Rightarrow> vec \<Rightarrow> nat \<times> nat" where
  "select_indices g x =
     (case foldl (select_step g x) (0, 1000, 0, 1000) [0..<length g] of
        (i1, i1_val, i2, i2_val) \<Rightarrow> (i1, i2))"

section \<open>Direction and step\<close>

text \<open>
  \<^verbatim>\<open>d_FW = -x; d_FW(i1) = 1 + d_FW(i1)\<close> and
  \<^verbatim>\<open>d_A = x; d_A(i2) = d_A(i2) - 1\<close>.
\<close>

definition d_FW_of :: "vec \<Rightarrow> nat \<Rightarrow> vec" where
  "d_FW_of x i1 = (map uminus x)[i1 := 1 + (map uminus x) ! i1]"

definition d_A_of :: "vec \<Rightarrow> nat \<Rightarrow> vec" where
  "d_A_of x i2 = x[i2 := x ! i2 - 1]"

text \<open>
  The bound \<^verbatim>\<open>x(i) / (1 - x(i))\<close> is a double: at \<^verbatim>\<open>x(i) = 1\<close> it is
  \<^verbatim>\<open>+inf\<close>, which \<open>PlusInf\<close> stands for.
\<close>

datatype bound = Finite real | PlusInf

definition away_bound :: "real \<Rightarrow> bound" where
  "away_bound xi = (if xi = 1 then PlusInf else Finite (xi / (1 - xi)))"

definition min_bound :: "real \<Rightarrow> bound \<Rightarrow> real" where
  "min_bound a b = (case b of PlusInf \<Rightarrow> a | Finite m \<Rightarrow> (if m < a then m else a))"

record choice =
  sel_i1 :: nat
  sel_i2 :: nat
  away :: bool
  dvec :: vec
  alpha_max :: bound

text \<open>Lines 62-76 of \<^verbatim>\<open>run_simplex_regression_FW_base\<close>: the bound reads \<^verbatim>\<open>x(i1)\<close>.\<close>

definition choose_direction_base :: "vec \<Rightarrow> vec \<Rightarrow> choice" where
  "choose_direction_base g x =
     (case select_indices g x of (i1, i2) \<Rightarrow>
        (let d_FW = d_FW_of x i1; d_A = d_A_of x i2 in
         if dot g d_FW < dot g d_A
         then \<lparr>sel_i1 = i1, sel_i2 = i2, away = False, dvec = d_FW, alpha_max = Finite 1\<rparr>
         else \<lparr>sel_i1 = i1, sel_i2 = i2, away = True, dvec = d_A,
               alpha_max = away_bound (x ! i1)\<rparr>))"

text \<open>Lines 375-392 of \<^verbatim>\<open>run_simplex_regression_FW\<close>: the bound reads \<^verbatim>\<open>x(i2)\<close>.\<close>

definition choose_direction_FW :: "vec \<Rightarrow> vec \<Rightarrow> choice" where
  "choose_direction_FW g x =
     (case select_indices g x of (i1, i2) \<Rightarrow>
        (let d_FW = d_FW_of x i1; d_A = d_A_of x i2 in
         if dot g d_FW < dot g d_A
         then \<lparr>sel_i1 = i1, sel_i2 = i2, away = False, dvec = d_FW, alpha_max = Finite 1\<rparr>
         else \<lparr>sel_i1 = i1, sel_i2 = i2, away = True, dvec = d_A,
               alpha_max = away_bound (x ! i2)\<rparr>))"

definition axpy :: "vec \<Rightarrow> real \<Rightarrow> vec \<Rightarrow> vec" where
  "axpy x a dv = map2 (\<lambda>xi di. xi + a * di) x dv"

text \<open>
  Lines 89-91 of the base solver: \<^verbatim>\<open>double alpha = 2.0 / (it + 2)\<close> and
  \<^verbatim>\<open>X.col(k) = x + alpha*d\<close>. The bound \<^verbatim>\<open>alpha_max\<close> is not read.
\<close>

definition base_alpha :: "nat \<Rightarrow> real" where
  "base_alpha it = 2 / (real it + 2)"

definition base_column :: "nat \<Rightarrow> vec \<Rightarrow> vec \<Rightarrow> vec" where
  "base_column it g x = axpy x (base_alpha it) (dvec (choose_direction_base g x))"

text \<open>
  Lines 398-418 of \<^verbatim>\<open>run_simplex_regression_FW\<close>:
  \<^verbatim>\<open>double alpha = 2 / (it + 2)\<close> is a quotient of two \<^verbatim>\<open>int\<close>s,
  \<^verbatim>\<open>alpha = min(alpha, alpha_max)\<close>, and the assignment
  \<^verbatim>\<open>X.col(k) = x + alpha*d\<close> is commented out: the column stays as it is.
\<close>

text \<open>
  \<open>FW_column\<close> receives the columns \<^verbatim>\<open>grad.col(k)\<close> and \<^verbatim>\<open>AX.col(k)\<close> as a pair
  and returns the column \<^verbatim>\<open>X.col(k)\<close> as the pass leaves it.
\<close>

definition FW_alpha :: "nat \<Rightarrow> choice \<Rightarrow> real" where
  "FW_alpha it c = min_bound (real_of_int (2 div (int it + 2))) (alpha_max c)"

definition FW_q :: "mat \<Rightarrow> vec \<Rightarrow> choice \<Rightarrow> vec" where
  "FW_q A ax c =
     (if away c then map2 (-) ax (A ! sel_i2 c) else map2 (-) (A ! sel_i1 c) ax)"

definition FW_column :: "mat \<Rightarrow> nat \<Rightarrow> vec \<times> vec \<Rightarrow> vec \<Rightarrow> vec" where
  "FW_column A it g_ax x =
     (case g_ax of (g, ax) \<Rightarrow>
        (let c = choose_direction_FW g x;
             q = FW_q A ax c;
             alpha = FW_alpha it c
         in x))"

section \<open>The outer loop\<close>

text \<open>
  The loop state is \<^verbatim>\<open>old_X\<close>, \<^verbatim>\<open>X\<close> and what the loop has printed: one pair
  \<^verbatim>\<open>(it, res)\<close> per pass.
\<close>

type_synonym loop_state = "mat \<times> mat \<times> (nat \<times> real) list"

definition sum_abs_diff :: "mat \<Rightarrow> mat \<Rightarrow> real" where
  "sum_abs_diff P Q = sum_list (map2 (\<lambda>u v. sum_list (map2 (\<lambda>a b. \<bar>a - b\<bar>) u v)) P Q)"

definition mean_vec :: "vec \<Rightarrow> real" where
  "mean_vec v = sum_list v / real (length v)"

definition mean_abs_diff :: "mat \<Rightarrow> mat \<Rightarrow> real" where
  "mean_abs_diff P Q = mean_vec (map2 (\<lambda>u v. mean_vec (map2 (\<lambda>a b. \<bar>a - b\<bar>) u v)) P Q)"

text \<open>
  One pass of the loop of the base solver (lines 38-101). The Boolean says whether the
  pass ended in \<^verbatim>\<open>break\<close>.
\<close>

definition base_iteration ::
  "mat \<Rightarrow> mat \<Rightarrow> mat \<Rightarrow> mat \<Rightarrow> real \<Rightarrow> nat \<Rightarrow> loop_state \<Rightarrow> arma_error + (bool \<times> loop_state)" where
  "base_iteration A B AtA AtB min_diff it s =
     (case s of (old_X, X, lg) \<Rightarrow>
        bind_err (mat_mult AtA X) (\<lambda>P.
        bind_err (mat_minus P AtB) (\<lambda>grad.
        bind_err (mat_mult A X) (\<lambda>AX.
        bind_err (mat_minus AX B) (\<lambda>obj.
          (let X' = map2 (base_column it) grad X;
               res = sum_abs_diff old_X X' / real (n_cols X');
               lg' = lg @ [(it, res)]
           in if res < min_diff then Inr (True, (old_X, X', lg'))
              else Inr (False, (X', X', lg'))))))))"

text \<open>
  \<^verbatim>\<open>for(int it = 0; it < max_iter; it++)\<close>: the first numeric argument counts the
  passes still allowed (\<open>max_iter - it\<close>, none when \<open>max_iter \<le> 0\<close>), the second is
  \<open>it\<close>.
\<close>

fun base_loop ::
  "mat \<Rightarrow> mat \<Rightarrow> mat \<Rightarrow> mat \<Rightarrow> real \<Rightarrow> nat \<Rightarrow> nat \<Rightarrow> loop_state \<Rightarrow> arma_error + loop_state" where
  "base_loop A B AtA AtB min_diff 0 it s = Inr s"
| "base_loop A B AtA AtB min_diff (Suc n) it s =
     bind_err (base_iteration A B AtA AtB min_diff it s) (\<lambda>r.
       if fst r then Inr (snd r) else base_loop A B AtA AtB min_diff n (Suc it) (snd r))"

text \<open>
  One pass of the loop of \<^verbatim>\<open>run_simplex_regression_FW\<close> (lines 339-436): the
  \<^verbatim>\<open>break\<close> is commented out, so a pass always ends with \<^verbatim>\<open>old_X = X\<close>.
\<close>

definition FW_iteration ::
  "mat \<Rightarrow> mat \<Rightarrow> mat \<Rightarrow> mat \<Rightarrow> real \<Rightarrow> nat \<Rightarrow> loop_state \<Rightarrow> arma_error + loop_state" where
  "FW_iteration A B AtA AtB min_diff it s =
     (case s of (old_X, X, lg) \<Rightarrow>
        bind_err (mat_mult AtA X) (\<lambda>P.
        bind_err (mat_minus P AtB) (\<lambda>grad.
        bind_err (mat_mult A X) (\<lambda>AX.
        bind_err (mat_minus AX B) (\<lambda>obj.
          (let X' = map2 (FW_column A it) (zip grad AX) X;
               res = mean_abs_diff old_X X';
               lg' = lg @ [(it, res)]
           in Inr (X', X', lg')))))))"

fun FW_loop ::
  "mat \<Rightarrow> mat \<Rightarrow> mat \<Rightarrow> mat \<Rightarrow> real \<Rightarrow> nat \<Rightarrow> nat \<Rightarrow> loop_state \<Rightarrow> arma_error + loop_state" where
  "FW_loop A B AtA AtB min_diff 0 it s = Inr s"
| "FW_loop A B AtA AtB min_diff (Suc n) it s =
     bind_err (FW_iteration A B AtA AtB min_diff it s) (\<lambda>s'.
       FW_loop A B AtA AtB min_diff n (Suc it) s')"

section \<open>The two solvers\<close>

text \<open>
  What both solvers do before the loop (lines 19-36 and 320-338). The correlation
  \<^verbatim>\<open>cor(A, B)\<close> is computed by the library; it is a parameter here.
\<close>

definition FW_setup ::
  "(mat \<Rightarrow> mat \<Rightarrow> arma_error + mat) \<Rightarrow> mat \<Rightarrow> mat \<Rightarrow> arma_error + (mat \<times> mat \<times> mat)" where
  "FW_setup cor A B =
     bind_err (cor A B) (\<lambda>tmp.
     bind_err (init_X tmp) (\<lambda>X.
     bind_err (mat_mult (trans_mat A) A) (\<lambda>AtA.
     bind_err (mat_mult (trans_mat A) B) (\<lambda>AtB.
       Inr (X, AtA, AtB)))))"

text \<open>Lines 104-105 and 441-442: \<^verbatim>\<open>X = clamp(X, 0, 1); X = normalise(X, 1)\<close>.\<close>

definition post_projection :: "mat \<Rightarrow> mat" where
  "post_projection X = normalise (clamp X 0 1)"

text \<open>Lines 16-17 and 317-318: only the value \<^verbatim>\<open>-1\<close> is replaced.\<close>

definition effective_max_iter :: "mat \<Rightarrow> int \<Rightarrow> int" where
  "effective_max_iter A max_iter = (if max_iter = - 1 then int (n_cols A) else max_iter)"

definition run_simplex_regression_FW_base ::
  "(mat \<Rightarrow> mat \<Rightarrow> arma_error + mat) \<Rightarrow> mat \<Rightarrow> mat \<Rightarrow> int \<Rightarrow> real
     \<Rightarrow> arma_error + (mat \<times> (nat \<times> real) list)" where
  "run_simplex_regression_FW_base cor A B max_iter min_diff =
     bind_err (FW_setup cor A B) (\<lambda>(X0, AtA, AtB).
     bind_err (base_loop A B AtA AtB min_diff (nat (effective_max_iter A max_iter)) 0 (X0, X0, []))
       (\<lambda>(old_X, X, lg). Inr (post_projection X, lg)))"

definition run_simplex_regression_FW ::
  "(mat \<Rightarrow> mat \<Rightarrow> arma_error + mat) \<Rightarrow> mat \<Rightarrow> mat \<Rightarrow> int \<Rightarrow> real
     \<Rightarrow> arma_error + (mat \<times> (nat \<times> real) list)" where
  "run_simplex_regression_FW cor A B max_iter min_diff =
     bind_err (FW_setup cor A B) (\<lambda>(X0, AtA, AtB).
     bind_err (FW_loop A B AtA AtB min_diff (nat (effective_max_iter A max_iter)) 0 (X0, X0, []))
       (\<lambda>(old_X, X, lg). Inr (post_projection X, lg)))"

section \<open>Predicates and example inputs used by the theorems\<close>

text \<open>Every column sums to 1: what the two step directions preserve.\<close>

definition cols_sum_one :: "mat \<Rightarrow> bool" where
  "cols_sum_one X \<longleftrightarrow> (\<forall>c \<in> set X. sum_list c = 1)"



text \<open>
  Identity dictionaries, and a correlation routine that returns a given matrix. With the
  \<open>2 \<times> 2\<close> identity and a target column \<open>[b0, b1]\<close>, \<open>b0 < b1\<close>, the correlations are
  \<open>[-1, 1]\<close> (and \<open>[1, -1]\<close> when \<open>b1 < b0\<close>); with the \<open>3 \<times> 3\<close> identity and the target
  \<open>[-7/8, 3/8, 1/8]\<close> they are \<open>[-0.98, 0.65, 0.33]\<close> to two decimals.
\<close>

definition identity2 :: mat where
  "identity2 = [[1, 0], [0, 1]]"

definition identity3 :: mat where
  "identity3 = [[1, 0, 0], [0, 1, 0], [0, 0, 1]]"

definition cor_of :: "mat \<Rightarrow> mat \<Rightarrow> mat \<Rightarrow> arma_error + mat" where
  "cor_of tmp A B = Inr tmp"

section \<open>The library's correlation\<close>

text \<open>
  \<^verbatim>\<open>cor(A, B)\<close> is Armadillo's; its code is not part of the repository. By the
  library's documentation every column is a variable and every row an observation, and
  entry \<open>(i, j)\<close> of the result is the correlation coefficient of column \<open>i\<close> of
  \<open>A\<close> and column \<open>j\<close> of \<open>B\<close>; a matrix of one row is read as a vector, that is as
  one variable whose observations are its entries; and the two arguments must hold the
  same number of observations. The coefficient of two variables is the parameter
  \<open>rho\<close>.
\<close>

definition as_variables :: "mat \<Rightarrow> mat" where
  "as_variables M = (if n_rows M = 1 then [concat M] else M)"

definition arma_cor :: "(vec \<Rightarrow> vec \<Rightarrow> real) \<Rightarrow> mat \<Rightarrow> mat \<Rightarrow> arma_error + mat" where
  "arma_cor rho A B =
     (let AA = as_variables A; BB = as_variables B
      in if n_rows AA = n_rows BB then Inr (map (\<lambda>b. map (\<lambda>a. rho a b) AA) BB)
         else Inl Incompatible_dimensions)"

text \<open>
  The sample correlation coefficient: the covariance over the product of the standard
  deviations, all three normalised by \<open>N - 1\<close>. Where a variable has no variance the
  library's value is not a number; the value here is then 0.
\<close>

definition pearson :: "vec \<Rightarrow> vec \<Rightarrow> real" where
  "pearson a b =
     (let da = map (\<lambda>v. v - mean_vec a) a;
          db = map (\<lambda>v. v - mean_vec b) b;
          nv = (if 1 < length a then real (length a) - 1 else 1)
      in (dot da db / nv) / (sqrt (dot da da / nv) * sqrt (dot db db / nv)))"

text \<open>A dictionary and a target of one row and two columns each.\<close>

definition one_row_A :: mat where
  "one_row_A = [[1], [2]]"

definition one_row_B :: mat where
  "one_row_B = [[3], [5]]"

section \<open>The state in which the loop is left\<close>




section \<open>Sizes of the intermediate matrices\<close>

lemma bind_err_Inr [simp]: "bind_err (Inr v) f = f v"
  by (simp add: bind_err_def)

lemma bind_err_Inl [simp]: "bind_err (Inl e) f = Inl e"
  by (simp add: bind_err_def)

lemma is_mat_n_cols: "is_mat r c M \<Longrightarrow> n_cols M = c"
  by (simp add: is_mat_def n_cols_def)

lemma is_mat_n_rows: "is_mat r c M \<Longrightarrow> 0 < c \<Longrightarrow> n_rows M = r"
  by (cases M) (auto simp: is_mat_def n_rows_def)

lemma is_mat_col_length: "is_mat r c M \<Longrightarrow> v \<in> set M \<Longrightarrow> length v = r"
  by (simp add: is_mat_def)

lemma n_cols_trans_mat: "n_cols (trans_mat M) = n_rows M"
  by (simp add: n_cols_def trans_mat_def)

lemma is_mat_trans_mat: "is_mat r c M \<Longrightarrow> 0 < c \<Longrightarrow> is_mat c r (trans_mat M)"
proof -
  assume m: "is_mat r c M" and c: "0 < c"
  have "n_rows M = r"
    using m c by (rule is_mat_n_rows)
  then show ?thesis
    using m by (auto simp: is_mat_def trans_mat_def)
qed

lemma length_mat_vec: "length (mat_vec M v) = n_rows M"
  by (simp add: mat_vec_def trans_mat_def)

lemma mat_mult_ok:
  assumes "is_mat r c M" "is_mat c n N" "0 < c" "0 < n"
  shows "\<exists>P. mat_mult M N = Inr P \<and> is_mat r n P"
proof -
  have "n_cols M = n_rows N"
    using assms by (simp add: is_mat_n_cols is_mat_n_rows)
  moreover have "is_mat r n (map (mat_vec M) N)"
    using assms by (simp add: is_mat_def length_mat_vec is_mat_n_rows [unfolded is_mat_def])
  ultimately show ?thesis
    by (simp add: mat_mult_def)
qed

lemma mat_minus_ok:
  assumes "is_mat r c M" "is_mat r c N"
  shows "\<exists>P. mat_minus M N = Inr P \<and> is_mat r c P"
proof -
  have rows: "n_rows M = n_rows N"
  proof (cases "c = 0")
    case True
    then show ?thesis using assms by (simp add: is_mat_def n_rows_def)
  next
    case False
    then show ?thesis using assms by (simp add: is_mat_n_rows)
  qed
  have cols: "n_cols M = n_cols N"
    using assms by (simp add: is_mat_n_cols)
  have "length w = r" if "w \<in> set (map2 (map2 (-)) M N)" for w
  proof -
    from that obtain a b where ab: "(a, b) \<in> set (zip M N)" and w: "w = map2 (-) a b"
      by auto
    have "a \<in> set M" "b \<in> set N"
      using ab by (auto dest: set_zip_leftD set_zip_rightD)
    then have "length a = r" "length b = r"
      using assms by (auto simp: is_mat_def)
    then show ?thesis
      using w by simp
  qed
  moreover have "length (map2 (map2 (-)) M N) = c"
    using assms by (simp add: is_mat_def)
  ultimately have "is_mat r c (map2 (map2 (-)) M N)"
    by (simp add: is_mat_def)
  with rows cols show ?thesis
    by (simp add: mat_minus_def)
qed

section \<open>Both directions sum to zero\<close>

lemma sum_list_update_real:
  fixes xs :: "real list"
  shows "i < length xs \<Longrightarrow> sum_list (xs[i := v]) = sum_list xs - xs ! i + v"
proof (induction xs arbitrary: i)
  case Nil
  then show ?case by simp
next
  case (Cons a xs)
  then show ?case by (cases i) auto
qed


lemma length_d_FW_of [simp]: "length (d_FW_of x i) = length x"
  by (simp add: d_FW_of_def)

lemma length_d_A_of [simp]: "length (d_A_of x i) = length x"
  by (simp add: d_A_of_def)










section \<open>The base loop keeps every column sum at 1\<close>





section \<open>The statements before the loop\<close>

lemma index_max_scan_bound:
  "best < i \<Longrightarrow> index_max_scan ys i best bv < i + length ys"
proof (induction ys arbitrary: i best bv)
  case Nil
  then show ?case by simp
next
  case (Cons y ys)
  have "index_max_scan ys (Suc i) i y < Suc i + length ys"
    by (rule Cons.IH) simp
  moreover have "index_max_scan ys (Suc i) best bv < Suc i + length ys"
    by (rule Cons.IH) (use Cons.prems in simp)
  ultimately show ?case by simp
qed

lemma index_max_ok:
  assumes "0 < length c"
  shows "\<exists>i. index_max c = Inr i \<and> i < length c"
proof (cases c)
  case Nil
  then show ?thesis using assms by simp
next
  case (Cons y ys)
  have "index_max_scan ys 1 0 y < 1 + length ys"
    by (rule index_max_scan_bound) simp
  then show ?thesis
    using Cons by (simp add: index_max_def)
qed

lemma sum_list_replicate_zero: "sum_list (replicate m (0::real)) = 0"
  by (induction m) auto

lemma init_X_ok:
  assumes "0 < k"
  shows "is_mat k n tmp \<Longrightarrow> \<exists>X0. init_X tmp = Inr X0 \<and> is_mat k n X0 \<and> cols_sum_one X0"
proof (induction tmp arbitrary: n)
  case Nil
  then show ?case by (simp add: is_mat_def cols_sum_one_def)
next
  case (Cons c cs)
  from Cons.prems have len: "length c = k" and rest: "is_mat k (length cs) cs" and n: "n = Suc (length cs)"
    by (auto simp: is_mat_def)
  obtain i where i: "index_max c = Inr i" "i < length c"
    using index_max_ok [of c] len assms by auto
  obtain X0 where X0: "init_X cs = Inr X0" "is_mat k (length cs) X0" "cols_sum_one X0"
    using Cons.IH [OF rest] by blast
  have "sum_list ((replicate (length c) (0::real))[i := 1]) = 1"
    using i(2) by (simp add: sum_list_update_real sum_list_replicate_zero)
  then show ?case
    using i X0 len n by (simp add: is_mat_def cols_sum_one_def)
qed

lemma FW_setup_ok:
  assumes "is_mat f k A" "is_mat f n B" "0 < f" "0 < k" "0 < n"
    and "cor A B = Inr tmp" "is_mat k n tmp"
  shows "\<exists>X0 AtA AtB. FW_setup cor A B = Inr (X0, AtA, AtB) \<and> init_X tmp = Inr X0
           \<and> is_mat k n X0 \<and> cols_sum_one X0 \<and> is_mat k k AtA \<and> is_mat k n AtB"
proof -
  obtain X0 where X0: "init_X tmp = Inr X0" "is_mat k n X0" "cols_sum_one X0"
    using init_X_ok [OF assms(4) assms(7)] by blast
  have At: "is_mat k f (trans_mat A)"
    using is_mat_trans_mat [OF assms(1) assms(4)] .
  obtain AtA where AtA: "mat_mult (trans_mat A) A = Inr AtA" "is_mat k k AtA"
    using mat_mult_ok [OF At assms(1) assms(3) assms(4)] by blast
  obtain AtB where AtB: "mat_mult (trans_mat A) B = Inr AtB" "is_mat k n AtB"
    using mat_mult_ok [OF At assms(2) assms(3) assms(5)] by blast
  show ?thesis
    using X0 AtA AtB assms(6) by (simp add: FW_setup_def)
qed


section \<open>Post-projection of a column of sum 1\<close>







section \<open>The loop of the second solver leaves the matrix alone\<close>

lemma map2_keep_right: "length ps = length xs \<Longrightarrow> map2 (\<lambda>p x. x) ps xs = xs"
  by (induction ps xs rule: list_induct2) auto

lemma FW_column_keeps: "FW_column A it = (\<lambda>p x. x)"
  by (rule ext)+ (simp add: FW_column_def Let_def split: prod.splits)

lemma FW_iteration_keeps:
  assumes "is_mat f k A" "is_mat f n B" "is_mat k k AtA" "is_mat k n AtB"
    and "0 < f" "0 < k" "0 < n"
    and "is_mat k n X"
  shows "FW_iteration A B AtA AtB min_diff it (old_X, X, lg)
           = Inr (X, X, lg @ [(it, mean_abs_diff old_X X)])"
proof -
  obtain P where P: "mat_mult AtA X = Inr P" "is_mat k n P"
    using mat_mult_ok [OF assms(3) assms(8) assms(6) assms(7)] by blast
  obtain grad where grad: "mat_minus P AtB = Inr grad" "is_mat k n grad"
    using mat_minus_ok [OF P(2) assms(4)] by blast
  obtain AX where AX: "mat_mult A X = Inr AX" "is_mat f n AX"
    using mat_mult_ok [OF assms(1) assms(8) assms(6) assms(7)] by blast
  obtain obj where obj: "mat_minus AX B = Inr obj"
    using mat_minus_ok [OF AX(2) assms(2)] by blast
  have "length (zip grad AX) = length X"
    using grad(2) AX(2) assms(8) by (simp add: is_mat_def)
  then have "map2 (FW_column A it) (zip grad AX) X = X"
    by (simp only: FW_column_keeps map2_keep_right)
  then show ?thesis
    by (simp add: FW_iteration_def P(1) grad(1) AX(1) obj Let_def)
qed

lemma FW_loop_keeps:
  assumes "is_mat f k A" "is_mat f n B" "is_mat k k AtA" "is_mat k n AtB"
    and "0 < f" "0 < k" "0 < n"
    and "is_mat k n X"
  shows "\<exists>old' lg'. FW_loop A B AtA AtB min_diff m it (old_X, X, lg) = Inr (old', X, lg')
           \<and> length lg' = length lg + m"
proof (induction m arbitrary: it old_X lg)
  case 0
  then show ?case by simp
next
  case (Suc m)
  have step: "FW_iteration A B AtA AtB min_diff it (old_X, X, lg)
                = Inr (X, X, lg @ [(it, mean_abs_diff old_X X)])"
    using FW_iteration_keeps [OF assms] .
  from Suc.IH [of "Suc it" X "lg @ [(it, mean_abs_diff old_X X)]"]
  show ?case
    by (auto simp: step)
qed


section \<open>Results for a correlation matrix of conforming size\<close>


lemma FW_result_for_conforming_cor:
  assumes "is_mat f k A" "is_mat f n B" "0 < f" "0 < k" "0 < n"
    and "cor A B = Inr tmp" "is_mat k n tmp"
  shows "\<exists>X0. init_X tmp = Inr X0
           \<and> (\<forall>max_iter min_diff. \<exists>lg.
                 run_simplex_regression_FW cor A B max_iter min_diff = Inr (post_projection X0, lg))"
proof -
  obtain X0 AtA AtB where su: "FW_setup cor A B = Inr (X0, AtA, AtB)"
    and init: "init_X tmp = Inr X0"
    and X0: "is_mat k n X0" and AtA: "is_mat k k AtA" and AtB: "is_mat k n AtB"
    using FW_setup_ok [where cor = cor and A = A and B = B and tmp = tmp and f = f and k = k and n = n] assms by blast
  have "\<exists>lg. run_simplex_regression_FW cor A B max_iter min_diff = Inr (post_projection X0, lg)"
    for max_iter min_diff
  proof -
    obtain old' lg' where
      "FW_loop A B AtA AtB min_diff (nat (effective_max_iter A max_iter)) 0 (X0, X0, [])
         = Inr (old', X0, lg')"
      using FW_loop_keeps [OF assms(1,2) AtA AtB assms(3,4,5) X0] by blast
    then show ?thesis
      by (simp add: run_simplex_regression_FW_def su)
  qed
  with init show ?thesis by blast
qed

section \<open>The correlation matrix and the state that reaches post-projection\<close>

lemma as_variables_id:
  assumes "is_mat f k M" "0 < k" "2 \<le> f \<or> k = 1"
  shows "as_variables M = M"
proof (cases "n_rows M = 1")
  case False
  then show ?thesis by (simp add: as_variables_def)
next
  case True
  have "n_rows M = f"
    using assms(1,2) by (rule is_mat_n_rows)
  with True assms(3) have "k = 1" by simp
  with assms(1) obtain c where "M = [c]"
    by (cases M) (auto simp: is_mat_def)
  then show ?thesis
    by (simp add: as_variables_def)
qed

lemma arma_cor_shape:
  assumes "is_mat f k A" "is_mat f n B" "0 < k" "0 < n" "2 \<le> f \<or> (k = 1 \<and> n = 1)"
  shows "\<exists>tmp. arma_cor rho A B = Inr tmp \<and> is_mat k n tmp"
proof -
  have A: "as_variables A = A"
    using assms by (intro as_variables_id [of f k]) auto
  have B: "as_variables B = B"
    using assms by (intro as_variables_id [of f n]) auto
  have "n_rows A = n_rows B"
    using assms by (simp add: is_mat_n_rows)
  moreover have "is_mat k n (map (\<lambda>b. map (\<lambda>a. rho a b) A) B)"
    using assms(1,2) by (simp add: is_mat_def)
  ultimately show ?thesis
    by (simp add: arma_cor_def A B)
qed










lemma pearson_two:
  "pearson [a0, a1] [b0, b1] = sgn ((a1 - a0) * (b1 - b0))"
proof -
  have da: "map (\<lambda>v. v - mean_vec [a0, a1]) [a0, a1] = [(a0 - a1) / 2, (a1 - a0) / 2]"
    by (simp add: mean_vec_def field_simps)
  have db: "map (\<lambda>v. v - mean_vec [b0, b1]) [b0, b1] = [(b0 - b1) / 2, (b1 - b0) / 2]"
    by (simp add: mean_vec_def field_simps)
  have cov: "dot [(a0 - a1) / 2, (a1 - a0) / 2] [(b0 - b1) / 2, (b1 - b0) / 2]
               = (a1 - a0) * (b1 - b0) / 2"
    by (simp add: dot_def field_simps)
  have var: "dot [(u0 - u1) / 2, (u1 - u0) / 2] [(u0 - u1) / 2, (u1 - u0) / 2]
               = ((u1 - u0) / sqrt 2) ^ 2" for u0 u1 :: real
    by (simp add: dot_def field_simps power2_eq_square)
  have sd: "sqrt (((u1 - u0) / sqrt 2) ^ 2) = \<bar>u1 - u0\<bar> / sqrt 2" for u0 u1 :: real
    by (simp add: abs_divide)
  have prod: "(\<bar>a1 - a0\<bar> / sqrt 2) * (\<bar>b1 - b0\<bar> / sqrt 2) = \<bar>(a1 - a0) * (b1 - b0)\<bar> / 2"
    by (simp add: abs_mult)
  have "pearson [a0, a1] [b0, b1]
          = ((a1 - a0) * (b1 - b0) / 2) / ((\<bar>a1 - a0\<bar> / sqrt 2) * (\<bar>b1 - b0\<bar> / sqrt 2))"
    unfolding pearson_def Let_def da db cov var
    by (simp add: sd)
  also have "\<dots> = ((a1 - a0) * (b1 - b0) / 2) / (\<bar>(a1 - a0) * (b1 - b0)\<bar> / 2)"
    by (simp only: prod)
  also have "\<dots> = sgn ((a1 - a0) * (b1 - b0))"
    by (simp add: sgn_real_def)
  finally show ?thesis .
qed

lemma arma_cor_identity2:
  "arma_cor pearson identity2 [[b0, b1]]
     = cor_of [[sgn (b0 - b1), sgn (b1 - b0)]] identity2 [[b0, b1]]"
proof -
  have "(0 - 1) * (b1 - b0) = b0 - b1" "(1 - 0) * (b1 - b0) = b1 - b0"
    by simp_all
  then have "pearson [1, 0] [b0, b1] = sgn (b0 - b1)" "pearson [0, 1] [b0, b1] = sgn (b1 - b0)"
    by (simp_all only: pearson_two)
  then show ?thesis
    by (simp add: arma_cor_def as_variables_def n_rows_def identity2_def cor_of_def)
qed









section \<open>Claims about the returned matrix\<close>




text \<open>
  C10, as stated, fails on the same input of one row:
  \<^verbatim>\<open>run_simplex_regression_FW\<close> returns \<open>[[1]]\<close> for \<open>max_iter = 0\<close> and ends in the
  size error of \<^verbatim>\<open>AtA * X\<close> for \<open>max_iter = 1\<close> and for \<open>max_iter = -1\<close>, so its
  result is not the same for all \<open>max_iter\<close>.
\<close>

theorem one_row_max_iter_counterexample:
  "is_mat 1 2 one_row_A \<and> is_mat 1 2 one_row_B
   \<and> run_simplex_regression_FW (arma_cor pearson) one_row_A one_row_B 0 0 = Inr ([[1]], [])
   \<and> run_simplex_regression_FW (arma_cor pearson) one_row_A one_row_B 1 0
       = Inl Incompatible_dimensions
   \<and> run_simplex_regression_FW (arma_cor pearson) one_row_A one_row_B (- 1) 0
       = Inl Incompatible_dimensions"
proof -
  have su: "FW_setup (arma_cor pearson) one_row_A one_row_B
              = Inr ([[1]], [[1, 2], [2, 4]], [[3, 6], [5, 10]])"
    by (simp add: FW_setup_def arma_cor_def as_variables_def n_rows_def n_cols_def one_row_A_def
        one_row_B_def index_max_def mat_mult_def mat_vec_def trans_mat_def dot_def)
  have it: "FW_iteration one_row_A one_row_B [[1, 2], [2, 4]] [[3, 6], [5, 10]] 0 i s
              = Inl Incompatible_dimensions" if "fst (snd s) = [[1]]" for i s
    using that by (cases s) (auto simp: FW_iteration_def mat_mult_def n_rows_def n_cols_def)
  have "run_simplex_regression_FW (arma_cor pearson) one_row_A one_row_B 0 0 = Inr ([[1]], [])"
    by (simp add: run_simplex_regression_FW_def su effective_max_iter_def post_projection_def
        clamp_def clamp_val_def normalise_def normalise_col_def norm1_def)
  moreover have "run_simplex_regression_FW (arma_cor pearson) one_row_A one_row_B 1 0
      = Inl Incompatible_dimensions"
    by (simp add: run_simplex_regression_FW_def su effective_max_iter_def it)
  moreover have "run_simplex_regression_FW (arma_cor pearson) one_row_A one_row_B (- 1) 0
      = Inl Incompatible_dimensions"
  proof -
    have "nat (effective_max_iter one_row_A (- 1)) = Suc (Suc 0)"
      by (simp add: effective_max_iter_def n_cols_def one_row_A_def)
    then show ?thesis
      by (simp add: run_simplex_regression_FW_def su it)
  qed
  moreover have "is_mat 1 2 one_row_A" "is_mat 1 2 one_row_B"
    by (simp_all add: is_mat_def one_row_A_def one_row_B_def)
  ultimately show ?thesis by simp
qed

text \<open>
  C10, amended. For a dictionary \<open>A\<close> (\<open>f \<times> k\<close>) and a target \<open>B\<close> (\<open>f \<times> n\<close>) with all
  sizes at least 1 and at least two rows (or \<open>k = n = 1\<close>), and for every correlation
  coefficient, the result of \<^verbatim>\<open>run_simplex_regression_FW\<close> is the same for all
  \<open>max_iter\<close> and \<open>min_diff\<close>: it is the clamped and column-normalised initial matrix
  \<open>X0\<close> (a single 1 per column, at the row of the largest correlation), because no pass
  of the loop writes to \<open>X\<close>.
\<close>

theorem FW_result_is_initial_vertex:
  assumes "is_mat f k A" "is_mat f n B" "0 < f" "0 < k" "0 < n"
    and "2 \<le> f \<or> (k = 1 \<and> n = 1)"
  shows "\<exists>tmp X0. arma_cor rho A B = Inr tmp \<and> init_X tmp = Inr X0
           \<and> (\<forall>max_iter min_diff. \<exists>lg.
                 run_simplex_regression_FW (arma_cor rho) A B max_iter min_diff
                   = Inr (post_projection X0, lg))"
proof -
  obtain tmp where tmp: "arma_cor rho A B = Inr tmp" "is_mat k n tmp"
    using arma_cor_shape [OF assms(1,2,4,5,6)] by blast
  then show ?thesis
    using FW_result_for_conforming_cor [where cor = "arma_cor rho" and A = A and B = B
        and tmp = tmp and f = f and k = k and n = n] assms(1-5)
    by blast
qed

theorem FW_result_is_initial_vertex_witness:
  "is_mat 2 2 identity2 \<and> is_mat 2 1 [[0, 3 / 4]]
   \<and> (\<exists>tmp X0. arma_cor pearson identity2 [[0, 3 / 4]] = Inr tmp \<and> init_X tmp = Inr X0
         \<and> (\<forall>max_iter min_diff. \<exists>lg.
               run_simplex_regression_FW (arma_cor pearson) identity2 [[0, 3 / 4]] max_iter min_diff
                 = Inr (post_projection X0, lg)))"
proof -
  have h: "is_mat 2 2 identity2" "is_mat 2 1 [[0, 3 / 4]]"
    by (simp_all add: is_mat_def identity2_def)
  show ?thesis
    using h FW_result_is_initial_vertex [where rho = pearson and A = identity2
        and B = "[[0, 3 / 4]]" and f = 2 and k = 2 and n = 1]
    by simp
qed

section \<open>Claims about errors\<close>

text \<open>
  C8. When \<open>A\<close> and \<open>B\<close> differ in their number of rows, both solvers end in an
  exception and return no matrix, whatever the correlation routine does and for every
  \<open>max_iter\<close> and \<open>min_diff\<close>. The exception is raised before the loop is entered, in the
  statements modelled by \<open>FW_setup\<close>: at the latest by the size check of the product
  \<^verbatim>\<open>At * B\<close>.
\<close>

theorem mismatched_rows_fail_before_loop:
  assumes "n_rows A \<noteq> n_rows B"
  shows "\<exists>e. FW_setup cor A B = Inl e
           \<and> run_simplex_regression_FW_base cor A B max_iter min_diff = Inl e
           \<and> run_simplex_regression_FW cor A B max_iter min_diff = Inl e"
proof -
  have "mat_mult (trans_mat A) B = Inl Incompatible_dimensions"
    using assms by (simp add: mat_mult_def n_cols_trans_mat)
  then have "\<exists>e. FW_setup cor A B = Inl e"
    by (auto simp: FW_setup_def bind_err_def split: sum.splits)
  then obtain e where "FW_setup cor A B = Inl e" ..
  then show ?thesis
    by (simp add: run_simplex_regression_FW_base_def run_simplex_regression_FW_def)
qed

theorem mismatched_rows_fail_before_loop_witness:
  "n_rows [[1, 2, 3]] \<noteq> n_rows [[1, 2, 3, 4]]
   \<and> (\<exists>e. FW_setup (cor_of [[1]]) [[1, 2, 3]] [[1, 2, 3, 4]] = Inl e
         \<and> run_simplex_regression_FW_base (cor_of [[1]]) [[1, 2, 3]] [[1, 2, 3, 4]] 5 0 = Inl e
         \<and> run_simplex_regression_FW (cor_of [[1]]) [[1, 2, 3]] [[1, 2, 3, 4]] 5 0 = Inl e)"
proof -
  have h: "n_rows [[1, 2, 3]] \<noteq> n_rows [[1, 2, 3, 4]]"
    by (simp add: n_rows_def)
  show ?thesis
    using h mismatched_rows_fail_before_loop [OF h, of "cor_of [[1]]" 5 0] by simp
qed



section \<open>Claims about the iteration count\<close>

text \<open>
  C7, as stated, fails: with \<open>max_iter = 0\<close> the base solver makes no pass and returns the
  initial vertex \<open>[0, 1]\<close>, whereas with \<open>max_iter = k = 2\<close> it makes two passes and
  returns \<open>[1/3, 2/3]\<close>.
\<close>

theorem nonpositive_max_iter_counterexample:
  "(0::int) \<le> 0
   \<and> run_simplex_regression_FW_base (cor_of [[- 1, 1]]) identity2 [[1 / 6, 5 / 6]] 0 0
       = Inr ([[0, 1]], [])
   \<and> run_simplex_regression_FW_base (cor_of [[- 1, 1]]) identity2 [[1 / 6, 5 / 6]]
         (int (n_cols identity2)) 0
       = Inr ([[1 / 3, 2 / 3]], [(0, 2), (1, 4 / 3)])
   \<and> run_simplex_regression_FW_base (cor_of [[- 1, 1]]) identity2 [[1 / 6, 5 / 6]] 0 0
       \<noteq> run_simplex_regression_FW_base (cor_of [[- 1, 1]]) identity2 [[1 / 6, 5 / 6]]
           (int (n_cols identity2)) 0"
  by code_simp

text \<open>
  C7, amended. Only \<open>max_iter = -1\<close> is read as \<open>k\<close>, the number of columns of \<open>A\<close>.
  For every other \<open>max_iter \<le> 0\<close> both solvers make no pass of the loop: they return the
  post-projected initial matrix and have printed no iteration line (or fail in the
  statements before the loop).
\<close>

theorem only_minus_one_selects_default:
  "run_simplex_regression_FW_base cor A B (- 1) min_diff
     = run_simplex_regression_FW_base cor A B (int (n_cols A)) min_diff
   \<and> run_simplex_regression_FW cor A B (- 1) min_diff
     = run_simplex_regression_FW cor A B (int (n_cols A)) min_diff
   \<and> (max_iter \<le> 0 \<and> max_iter \<noteq> - 1 \<longrightarrow>
        run_simplex_regression_FW_base cor A B max_iter min_diff
          = bind_err (FW_setup cor A B) (\<lambda>(X0, AtA, AtB). Inr (post_projection X0, []))
        \<and> run_simplex_regression_FW cor A B max_iter min_diff
          = bind_err (FW_setup cor A B) (\<lambda>(X0, AtA, AtB). Inr (post_projection X0, [])))"
proof -
  have e1: "effective_max_iter A (- 1) = effective_max_iter A (int (n_cols A))"
    by (simp add: effective_max_iter_def)
  have e0: "nat (effective_max_iter A max_iter) = 0" if "max_iter \<le> 0" "max_iter \<noteq> - 1"
    using that by (simp add: effective_max_iter_def)
  show ?thesis
    by (auto simp: run_simplex_regression_FW_base_def run_simplex_regression_FW_def e1 e0
        intro!: arg_cong2 [where f = bind_err])
qed

theorem only_minus_one_selects_default_witness:
  "(- 5::int) \<le> 0 \<and> (- 5::int) \<noteq> - 1
   \<and> run_simplex_regression_FW_base (cor_of [[- 1, 1]]) identity2 [[1 / 6, 5 / 6]] (- 5) 0
       = bind_err (FW_setup (cor_of [[- 1, 1]]) identity2 [[1 / 6, 5 / 6]])
           (\<lambda>(X0, AtA, AtB). Inr (post_projection X0, []))
   \<and> run_simplex_regression_FW (cor_of [[- 1, 1]]) identity2 [[1 / 6, 5 / 6]] (- 5) 0
       = bind_err (FW_setup (cor_of [[- 1, 1]]) identity2 [[1 / 6, 5 / 6]])
           (\<lambda>(X0, AtA, AtB). Inr (post_projection X0, []))
   \<and> run_simplex_regression_FW_base (cor_of [[- 1, 1]]) identity2 [[1 / 6, 5 / 6]] (- 1) 0
       = run_simplex_regression_FW_base (cor_of [[- 1, 1]]) identity2 [[1 / 6, 5 / 6]]
           (int (n_cols identity2)) 0"
  using only_minus_one_selects_default [of "cor_of [[- 1, 1]]" identity2 "[[1 / 6, 5 / 6]]" 0 "- 5"]
  by simp

section \<open>The code at inputs where it departs from the specification\<close>

text \<open>
  C2. \<^verbatim>\<open>run_simplex_regression_FW\<close> on the identity dictionary and the target
  \<open>[1/6, 5/6]\<close>: in pass 0 the gradient is \<open>[-1/6, 1/6]\<close>, the forward direction
  \<open>d = [1, -1]\<close> is chosen with \<open>alpha = 1\<close>, so \<open>x + alpha*d = [1, 0]\<close>; the pass leaves the
  column at \<open>[0, 1]\<close>, and the solver returns \<open>[0, 1]\<close>. The base solver moves the column
  to \<open>[1, 0]\<close> in the same pass.
\<close>

theorem FW_leaves_column_unchanged:
  "FW_setup (cor_of [[- 1, 1]]) identity2 [[1 / 6, 5 / 6]]
     = Inr ([[0, 1]], identity2, [[1 / 6, 5 / 6]])
   \<and> bind_err (mat_mult identity2 [[0, 1]]) (\<lambda>P. mat_minus P [[1 / 6, 5 / 6]])
     = Inr [[- (1 / 6), 1 / 6]]
   \<and> choose_direction_FW [- (1 / 6), 1 / 6] [0, 1]
     = \<lparr>sel_i1 = 0, sel_i2 = 1, away = False, dvec = [1, - 1], alpha_max = Finite 1\<rparr>
   \<and> FW_alpha 0 (choose_direction_FW [- (1 / 6), 1 / 6] [0, 1]) = 1
   \<and> axpy [0, 1] 1 [1, - 1] = [1, 0]
   \<and> FW_iteration identity2 [[1 / 6, 5 / 6]] identity2 [[1 / 6, 5 / 6]] 0 0 ([[0, 1]], [[0, 1]], [])
     = Inr ([[0, 1]], [[0, 1]], [(0, 0)])
   \<and> base_iteration identity2 [[1 / 6, 5 / 6]] identity2 [[1 / 6, 5 / 6]] 0 0 ([[0, 1]], [[0, 1]], [])
     = Inr (False, [[1, 0]], [[1, 0]], [(0, 2)])
   \<and> run_simplex_regression_FW (cor_of [[- 1, 1]]) identity2 [[1 / 6, 5 / 6]] 1 0
     = Inr ([[0, 1]], [(0, 0)])"
  by code_simp

text \<open>
  C6. \<^verbatim>\<open>run_simplex_regression_FW\<close> with \<open>max_iter = 3\<close> and \<open>min_diff = 1e-16\<close>, on
  the identity dictionary and the target \<open>[1, 0]\<close>: the change measure is 0, below
  \<open>min_diff\<close>, after every pass, and the solver still makes all three passes. The base
  solver stops after the first pass on the same input.
\<close>

theorem FW_never_stops_early:
  "run_simplex_regression_FW (cor_of [[1, - 1]]) identity2 [[1, 0]] 3 (1 / 10 ^ 16)
     = Inr ([[1, 0]], [(0, 0), (1, 0), (2, 0)])
   \<and> (0::real) < 1 / 10 ^ 16
   \<and> run_simplex_regression_FW_base (cor_of [[1, - 1]]) identity2 [[1, 0]] 3 (1 / 10 ^ 16)
     = Inr ([[1, 0]], [(0, 0)])"
  by code_simp

text \<open>
  C3. On the identity dictionary and the target \<open>[0, 3/4]\<close> the base solver reaches
  \<open>x = [1/6, 5/6]\<close> after three passes, with gradient \<open>g = [1/6, 1/12]\<close>. The smallest
  entry of \<open>g\<close> is in row 1, where \<open>x\<close> is positive, yet the loop selects
  \<open>i1 = i2 = 0\<close>: \<open>i1_val\<close> holds the integer part 0 of \<open>g(0)\<close>, and \<open>1/12 < 0\<close> is false.
  On the target \<open>[-2000, -1499]\<close> the first gradient is \<open>g = [2000, 1500]\<close> at
  \<open>x = [0, 1]\<close>: no entry is below the initial 1000 and the loop leaves \<open>i1 = i2 = 0\<close>,
  although the minimum is in row 1 and \<open>x(0) = 0\<close>.
\<close>

theorem select_indices_misses_minimum:
  "base_loop identity2 [[0, 3 / 4]] identity2 [[0, 3 / 4]] 0 3 0 ([[0, 1]], [[0, 1]], [])
     = Inr ([[1 / 6, 5 / 6]], [[1 / 6, 5 / 6]], [(0, 2), (1, 4 / 3), (2, 1 / 3)])
   \<and> bind_err (mat_mult identity2 [[1 / 6, 5 / 6]]) (\<lambda>P. mat_minus P [[0, 3 / 4]])
     = Inr [[1 / 6, 1 / 12]]
   \<and> select_indices [1 / 6, 1 / 12] [1 / 6, 5 / 6] = (0, 0)
   \<and> [1 / 6, 1 / 12 :: real] ! 1 < [1 / 6, 1 / 12] ! 0
   \<and> 0 < [1 / 6, 5 / 6 :: real] ! 1
   \<and> bind_err (mat_mult identity2 [[0, 1]]) (\<lambda>P. mat_minus P [[- 2000, - 1499]])
     = Inr [[2000, 1500]]
   \<and> select_indices [2000, 1500] [0, 1] = (0, 0)"
  by code_simp

text \<open>
  C4. On the identity dictionary and the target \<open>[0, 3/4]\<close> the base solver reaches
  \<open>x = [1/6, 5/6]\<close> after three passes. In pass 3 the away direction
  \<open>d = x - e0 = [-5/6, 5/6]\<close> is chosen; the bound is \<open>x(0)/(1 - x(0)) = 1/5\<close>, the step
  applied is \<open>alpha = 2/5\<close>, not \<open>min(1/5, 2/5) = 1/5\<close>, and the drained coordinate
  becomes \<open>-1/6\<close>. \<^verbatim>\<open>run_simplex_regression_FW\<close> computes
  \<open>alpha = min(2 div 5, 1/5) = 0\<close> in the same state. On the \<open>3 \<times> 3\<close> identity dictionary
  and the target \<open>[-7/8, 3/8, 1/8]\<close> the base solver is at \<open>x = [0, 2/3, 1/3]\<close> after two
  passes and chooses the away direction with \<open>i1 = 0\<close>, \<open>i2 = 1\<close>: its bound is
  \<open>x(i1)/(1 - x(i1)) = 0\<close>, not \<open>x(i2)/(1 - x(i2)) = 2\<close>.
\<close>

theorem away_step_is_not_clipped:
  "FW_setup (cor_of [[- 1, 1]]) identity2 [[0, 3 / 4]] = Inr ([[0, 1]], identity2, [[0, 3 / 4]])
   \<and> base_loop identity2 [[0, 3 / 4]] identity2 [[0, 3 / 4]] 0 3 0 ([[0, 1]], [[0, 1]], [])
     = Inr ([[1 / 6, 5 / 6]], [[1 / 6, 5 / 6]], [(0, 2), (1, 4 / 3), (2, 1 / 3)])
   \<and> bind_err (mat_mult identity2 [[1 / 6, 5 / 6]]) (\<lambda>P. mat_minus P [[0, 3 / 4]])
     = Inr [[1 / 6, 1 / 12]]
   \<and> choose_direction_base [1 / 6, 1 / 12] [1 / 6, 5 / 6]
     = \<lparr>sel_i1 = 0, sel_i2 = 0, away = True, dvec = [- (5 / 6), 5 / 6],
         alpha_max = Finite (1 / 5)\<rparr>
   \<and> base_alpha 3 = 2 / 5
   \<and> min_bound (2 / 5) (away_bound ([1 / 6, 5 / 6] ! 0)) = 1 / 5
   \<and> base_column 3 [1 / 6, 1 / 12] [1 / 6, 5 / 6] = [- (1 / 6), 7 / 6]
   \<and> FW_alpha 3 (choose_direction_FW [1 / 6, 1 / 12] [1 / 6, 5 / 6]) = 0
   \<and> FW_setup (cor_of [[- (98 / 100), 65 / 100, 33 / 100]]) identity3 [[- (7 / 8), 3 / 8, 1 / 8]]
     = Inr ([[0, 1, 0]], identity3, [[- (7 / 8), 3 / 8, 1 / 8]])
   \<and> base_loop identity3 [[- (7 / 8), 3 / 8, 1 / 8]] identity3 [[- (7 / 8), 3 / 8, 1 / 8]] 0 2 0
       ([[0, 1, 0]], [[0, 1, 0]], [])
     = Inr ([[0, 2 / 3, 1 / 3]], [[0, 2 / 3, 1 / 3]], [(0, 2), (1, 4 / 3)])
   \<and> bind_err (mat_mult identity3 [[0, 2 / 3, 1 / 3]])
       (\<lambda>P. mat_minus P [[- (7 / 8), 3 / 8, 1 / 8]])
     = Inr [[7 / 8, 7 / 24, 5 / 24]]
   \<and> choose_direction_base [7 / 8, 7 / 24, 5 / 24] [0, 2 / 3, 1 / 3]
     = \<lparr>sel_i1 = 0, sel_i2 = 1, away = True, dvec = [0, - (1 / 3), 1 / 3],
         alpha_max = Finite 0\<rparr>
   \<and> away_bound ([0, 2 / 3, 1 / 3] ! 1) = Finite 2"
  by code_simp

text \<open>
  C5. On the identity dictionary and the target \<open>[0, 3/4]\<close> the base solver holds
  \<open>X = [-1/6, 7/6]\<close> at the end of its fourth pass: a negative entry at an iteration
  boundary; it then returns \<open>[0, 1]\<close>.
\<close>

theorem iterate_leaves_simplex:
  "base_loop identity2 [[0, 3 / 4]] identity2 [[0, 3 / 4]] 0 4 0 ([[0, 1]], [[0, 1]], [])
     = Inr ([[- (1 / 6), 7 / 6]], [[- (1 / 6), 7 / 6]], [(0, 2), (1, 4 / 3), (2, 1 / 3), (3, 2 / 3)])
   \<and> run_simplex_regression_FW_base (cor_of [[- 1, 1]]) identity2 [[0, 3 / 4]] 4 0
     = Inr ([[0, 1]], [(0, 2), (1, 4 / 3), (2, 1 / 3), (3, 2 / 3)])"
  by code_simp

end
